theory Spec2Isabelle
  imports Main
begin

section \<open>The chat server: data model\<close>

text \<open>
  The server of the chat application (the file that requires express, socket.io and
  mongoose) keeps one module-level object \<open>users\<close>, keyed by socket id, and registers
  six handlers on every connected socket: join, chat message, typing, stop typing,
  private message and disconnect. Everything else it touches belongs to a library: the
  room membership kept by socket.io and the Message collection kept by mongoose.

  JavaScript values that a handler receives from a client are strings or absent:
  \<open>None\<close> stands for \<open>undefined\<close>. A string is a list of code units, so \<open>length\<close>
  is the \<open>.length\<close> of the source.
\<close>

type_synonym sid = string

text \<open>The object literal \<open>{ id: userId, username, room }\<close> stored in \<open>users\<close>.\<close>

record user =
  u_id :: string
  u_username :: string
  u_room :: string

text \<open>
  Reading a property of such an object by name. The literal has exactly three
  properties; any other name reads as \<open>undefined\<close>.
\<close>

definition user_prop :: "user \<Rightarrow> string \<Rightarrow> string option" where
  "user_prop u p =
     (if p = ''id'' then Some (u_id u)
      else if p = ''username'' then Some (u_username u)
      else if p = ''room'' then Some (u_room u)
      else None)"

text \<open>
  A document of the Message model: \<open>username\<close> and \<open>message\<close> are required strings,
  \<open>room\<close> defaults to \<open>general\<close>, \<open>timestamp\<close> defaults to the time of construction.
\<close>

record message_doc =
  m_username :: "string option"
  m_message :: "string option"
  m_room :: string
  m_timestamp :: nat

text \<open>What a handler sends to a client: the event name with its payload.\<close>

datatype emitted =
    Error_ev string
  | Chat_history "message_doc list"
  | User_joined string
  | User_left string
  | User_list "user list"
  | Chat_message_ev "string option" string nat
  | Typing_ev "string option"
  | Stop_typing_ev
  | Private_message_from "string option" "string option" nat
  | Private_message_to string "string option" nat

type_synonym deliveries = "(sid \<times> emitted) list"

text \<open>
  How a handler ends: it returns, or (for an \<open>async\<close> handler) its promise is
  rejected by an exception that nothing catches.
\<close>

datatype failure = TypeError | ValidationError | StoreUnavailable

datatype completion = Returned | Rejected failure

text \<open>
  The state of the server: the \<open>users\<close> object in insertion order (the order of
  \<open>Object.values\<close>), the rooms of socket.io as pairs of a socket and a room it is in,
  and the stored messages in the order they were saved.
\<close>

record server =
  users :: "(sid \<times> user) list"
  sio :: "(sid \<times> string) list"
  store :: "message_doc list"

definition init :: server where
  "init = \<lparr>users = [], sio = [], store = []\<rparr>"

section \<open>The users object\<close>

text \<open>\<open>users[k]\<close>, \<open>users[k] = v\<close> (an existing key keeps its place), \<open>delete users[k]\<close>.\<close>

fun users_get :: "(sid \<times> user) list \<Rightarrow> sid \<Rightarrow> user option" where
  "users_get [] k = None"
| "users_get ((k', v) # us) k = (if k' = k then Some v else users_get us k)"

fun users_set :: "(sid \<times> user) list \<Rightarrow> sid \<Rightarrow> user \<Rightarrow> (sid \<times> user) list" where
  "users_set [] k v = [(k, v)]"
| "users_set ((k', v') # us) k v =
     (if k' = k then (k, v) # us else (k', v') # users_set us k v)"

definition users_delete :: "(sid \<times> user) list \<Rightarrow> sid \<Rightarrow> (sid \<times> user) list" where
  "users_delete us k = filter (\<lambda>(k', v). k' \<noteq> k) us"

definition values_of :: "(sid \<times> user) list \<Rightarrow> user list" where
  "values_of us = map snd us"

section \<open>The socket.io operations the handlers call\<close>

text \<open>
  The contract of the library, as its documentation gives it: \<open>socket.join(room)\<close>
  adds the socket to a room (a room is a set, so joining twice changes nothing), every
  socket is in the room named by its own id from the moment it connects, and a socket
  has left all of its rooms by the time its disconnect event fires. \<open>socket.emit\<close>
  reaches the socket itself, \<open>io.to(room).emit\<close> every socket in the room,
  \<open>socket.to(room).emit\<close> every socket in the room but the sender. A room that is
  \<open>undefined\<close> is no room: nobody is in it.
\<close>

definition members :: "(sid \<times> string) list \<Rightarrow> string \<Rightarrow> sid list" where
  "members adp r = map fst (filter (\<lambda>(s, r'). r' = r) adp)"

definition socket_join :: "(sid \<times> string) list \<Rightarrow> sid \<Rightarrow> string \<Rightarrow> (sid \<times> string) list" where
  "socket_join adp s r = (if (s, r) \<in> set adp then adp else adp @ [(s, r)])"

definition leave_all :: "(sid \<times> string) list \<Rightarrow> sid \<Rightarrow> (sid \<times> string) list" where
  "leave_all adp s = filter (\<lambda>(s', r). s' \<noteq> s) adp"

definition socket_emit :: "sid \<Rightarrow> emitted \<Rightarrow> deliveries" where
  "socket_emit s e = [(s, e)]"

definition io_to_emit :: "(sid \<times> string) list \<Rightarrow> string option \<Rightarrow> emitted \<Rightarrow> deliveries" where
  "io_to_emit adp room e =
     (case room of
        None \<Rightarrow> []
      | Some r \<Rightarrow> map (\<lambda>t. (t, e)) (members adp r))"

definition socket_to_emit ::
  "(sid \<times> string) list \<Rightarrow> sid \<Rightarrow> string option \<Rightarrow> emitted \<Rightarrow> deliveries" where
  "socket_to_emit adp s room e =
     (case room of
        None \<Rightarrow> []
      | Some r \<Rightarrow> map (\<lambda>t. (t, e)) (filter (\<lambda>t. t \<noteq> s) (members adp r)))"

section \<open>The Message model\<close>

text \<open>
  \<open>new Message({ username, message, room })\<close> applies the defaults of the schema;
  \<open>save\<close> runs the \<open>required\<close> validators (an absent or empty string fails) and then
  writes to the database, which may be unavailable. \<open>db_ok\<close> is the answer of the
  database to this call.
\<close>

definition truthy :: "string option \<Rightarrow> bool" where
  "truthy v = (case v of None \<Rightarrow> False | Some s \<Rightarrow> s \<noteq> [])"

definition new_Message ::
  "string option \<Rightarrow> string option \<Rightarrow> string option \<Rightarrow> nat \<Rightarrow> message_doc" where
  "new_Message username message room now =
     \<lparr>m_username = username, m_message = message,
      m_room = (case room of None \<Rightarrow> ''general'' | Some r \<Rightarrow> r),
      m_timestamp = now\<rparr>"

definition save :: "message_doc list \<Rightarrow> message_doc \<Rightarrow> bool \<Rightarrow> failure + message_doc list" where
  "save docs msg db_ok =
     (if \<not> (truthy (m_username msg) \<and> truthy (m_message msg)) then Inl ValidationError
      else if \<not> db_ok then Inl StoreUnavailable
      else Inr (docs @ [msg]))"

text \<open>
  \<open>Message.find({ room }).sort({ timestamp: -1 }).limit(50)\<close>: the documents of the
  room, newest first, at most fifty. Documents with equal timestamps keep the order
  in which they were saved.
\<close>

definition find_recent :: "message_doc list \<Rightarrow> string \<Rightarrow> message_doc list" where
  "find_recent docs room =
     take 50 (sort_key (\<lambda>d. - int (m_timestamp d)) (filter (\<lambda>d. m_room d = room) docs))"

section \<open>Strings\<close>

text \<open>\<open>String.prototype.trim\<close> on the code units below 256.\<close>

definition is_space :: "char \<Rightarrow> bool" where
  "is_space c =
     (c \<in> set [CHR 0x09, CHR 0x0A, CHR 0x0B, CHR 0x0C, CHR 0x0D, CHR 0x20, CHR 0xA0])"

definition js_trim :: "string \<Rightarrow> string" where
  "js_trim s = rev (dropWhile is_space (rev (dropWhile is_space s)))"

section \<open>The handlers\<close>

text \<open>
  Each handler takes the state, the socket it was registered on, the fields of the
  payload as the source destructures them, and what the environment answered during
  this call (the value \<open>uuidv4()\<close> returned, the clock, whether the database
  answered). It gives the new state, what was sent to whom, and how it ended. The
  continuation of an \<open>await\<close> runs on the state its synchronous prefix left.
\<close>

type_synonym outcome = "server \<times> deliveries \<times> completion"

definition connection :: "server \<Rightarrow> sid \<Rightarrow> outcome" where
  "connection st s = (st\<lparr>sio := socket_join (sio st) s s\<rparr>, [], Returned)"

definition join ::
  "server \<Rightarrow> sid \<Rightarrow> string option \<Rightarrow> string option \<Rightarrow> string \<Rightarrow> bool \<Rightarrow> outcome" where
  "join st s username room userId db_ok =
     (case (username, room) of
        (Some un, Some rm) \<Rightarrow>
          if un = [] \<or> rm = []
          then (st, socket_emit s (Error_ev ''Username and room are required''), Returned)
          else
            let st1 = st\<lparr>users := users_set (users st) s
                                     \<lparr>u_id = userId, u_username = un, u_room = rm\<rparr>,
                         sio := socket_join (sio st) s rm\<rparr>
            in if \<not> db_ok then (st1, [], Rejected StoreUnavailable)
               else
                 let messages = find_recent (store st1) rm
                 in (st1,
                     socket_emit s (Chat_history (rev messages))
                     @ socket_to_emit (sio st1) s (Some rm)
                         (User_joined (un @ '' has joined the room''))
                     @ io_to_emit (sio st1) (Some rm)
                         (User_list (filter (\<lambda>u. u_room u = rm) (values_of (users st1)))),
                     Returned)
      | _ \<Rightarrow> (st, socket_emit s (Error_ev ''Username and room are required''), Returned))"

definition chat_message ::
  "server \<Rightarrow> sid \<Rightarrow> string option \<Rightarrow> string option \<Rightarrow> string option \<Rightarrow> nat \<Rightarrow> bool
     \<Rightarrow> outcome" where
  "chat_message st s message room username now db_ok =
     (case message of
        None \<Rightarrow> (st, [], Rejected TypeError)
      | Some m \<Rightarrow>
          if js_trim m = [] \<or> length m > 500
          then (st, socket_emit s (Error_ev ''Invalid message''), Returned)
          else
            let msg = new_Message username (Some m) room now
            in (case save (store st) msg db_ok of
                  Inl e \<Rightarrow> (st, [], Rejected e)
                | Inr docs \<Rightarrow>
                    (st\<lparr>store := docs\<rparr>,
                     io_to_emit (sio st) room (Chat_message_ev username m (m_timestamp msg)),
                     Returned)))"

definition typing :: "server \<Rightarrow> sid \<Rightarrow> string option \<Rightarrow> string option \<Rightarrow> outcome" where
  "typing st s username room =
     (st, socket_to_emit (sio st) s room (Typing_ev username), Returned)"

definition stop_typing :: "server \<Rightarrow> sid \<Rightarrow> string option \<Rightarrow> outcome" where
  "stop_typing st s room = (st, socket_to_emit (sio st) s room Stop_typing_ev, Returned)"

definition private_message ::
  "server \<Rightarrow> sid \<Rightarrow> string option \<Rightarrow> string option \<Rightarrow> string option \<Rightarrow> nat \<Rightarrow> bool
     \<Rightarrow> outcome" where
  "private_message st s toUserId message username now db_ok =
     (case find (\<lambda>u. Some (u_id u) = toUserId) (values_of (users st)) of
        None \<Rightarrow> (st, socket_emit s (Error_ev ''User not found''), Returned)
      | Some recipient \<Rightarrow>
          let msg = new_Message username message
                      (Some (''private-'' @ (case toUserId of None \<Rightarrow> ''undefined'' | Some t \<Rightarrow> t)))
                      now
          in (case save (store st) msg db_ok of
                Inl e \<Rightarrow> (st, [], Rejected e)
              | Inr docs \<Rightarrow>
                  (st\<lparr>store := docs\<rparr>,
                   socket_to_emit (sio st) s (user_prop recipient ''socketId'')
                     (Private_message_from username message (m_timestamp msg))
                   @ socket_emit s
                       (Private_message_to (u_username recipient) message (m_timestamp msg)),
                   Returned)))"

definition disconnect :: "server \<Rightarrow> sid \<Rightarrow> outcome" where
  "disconnect st s =
     (let adp = leave_all (sio st) s
      in case users_get (users st) s of
           None \<Rightarrow> (st\<lparr>sio := adp\<rparr>, [], Returned)
         | Some user \<Rightarrow>
             (st\<lparr>sio := adp, users := users_delete (users st) s\<rparr>,
              socket_to_emit adp s (Some (u_room user))
                (User_left (u_username user @ '' has left the room''))
              @ io_to_emit adp (Some (u_room user))
                  (User_list (filter (\<lambda>u. u_room u = u_room user) (values_of (users st)))),
              Returned))"

section \<open>Sequences of events\<close>

datatype event =
    Connection sid
  | Join sid "string option" "string option" string bool
  | Chat_message sid "string option" "string option" "string option" nat bool
  | Typing sid "string option" "string option"
  | Stop_typing sid "string option"
  | Private_message sid "string option" "string option" "string option" nat bool
  | Disconnect sid

fun step :: "server \<Rightarrow> event \<Rightarrow> outcome" where
  "step st (Connection s) = connection st s"
| "step st (Join s username room userId db_ok) = join st s username room userId db_ok"
| "step st (Chat_message s message room username now db_ok) =
     chat_message st s message room username now db_ok"
| "step st (Typing s username room) = typing st s username room"
| "step st (Stop_typing s room) = stop_typing st s room"
| "step st (Private_message s toUserId message username now db_ok) =
     private_message st s toUserId message username now db_ok"
| "step st (Disconnect s) = disconnect st s"

text \<open>The state after a sequence of events, and everything sent while it ran.\<close>

fun run :: "server \<Rightarrow> event list \<Rightarrow> server \<times> deliveries" where
  "run st [] = (st, [])"
| "run st (e # es) =
     (case step st e of
        (st1, out1, c) \<Rightarrow> (case run st1 es of (st2, out2) \<Rightarrow> (st2, out1 @ out2)))"

section \<open>A scenario\<close>

text \<open>
  Two clients connect and join room \<open>a\<close>: alice on socket \<open>s1\<close>, bob on socket
  \<open>s2\<close>. \<open>uuidv4()\<close> answered \<open>u1\<close> and \<open>u2\<close>. \<open>lobby_state\<close> is the state
  the server is in afterwards. From there, one of three things happens: alice's socket
  joins again, for room \<open>b\<close>; a socket \<open>s9\<close> connects and does not join; bob sends
  alice a private message and a socket \<open>s3\<close> connects.
\<close>

definition lobby :: "event list" where
  "lobby = [Connection ''s1'', Join ''s1'' (Some ''alice'') (Some ''a'') ''u1'' True,
            Connection ''s2'', Join ''s2'' (Some ''bob'') (Some ''a'') ''u2'' True]"

definition lobby_state :: server where
  "lobby_state = fst (run init lobby)"

definition switched_state :: server where
  "switched_state =
     fst (run lobby_state [Join ''s1'' (Some ''alice'') (Some ''b'') ''u3'' True])"

definition stranger_state :: server where
  "stranger_state = fst (run lobby_state [Connection ''s9''])"

definition whispered_state :: server where
  "whispered_state =
     fst (run lobby_state
            [Private_message ''s2'' (Some ''u1'') (Some ''secret'') (Some ''bob'') 5 True,
             Connection ''s3''])"

section \<open>Basic facts\<close>

lemmas handler_defs =
  connection_def join_def chat_message_def typing_def stop_typing_def private_message_def
  disconnect_def socket_join_def leave_all_def socket_emit_def socket_to_emit_def
  io_to_emit_def members_def values_of_def users_delete_def new_Message_def save_def
  truthy_def find_recent_def user_prop_def

lemma lobby_state_eq:
  "lobby_state =
     \<lparr>users = [(''s1'', \<lparr>u_id = ''u1'', u_username = ''alice'', u_room = ''a''\<rparr>),
               (''s2'', \<lparr>u_id = ''u2'', u_username = ''bob'', u_room = ''a''\<rparr>)],
      sio = [(''s1'', ''s1''), (''s1'', ''a''), (''s2'', ''s2''), (''s2'', ''a'')],
      store = []\<rparr>"
  by (simp add: lobby_state_def lobby_def init_def handler_defs)

lemma switched_state_eq:
  "switched_state =
     \<lparr>users = [(''s1'', \<lparr>u_id = ''u3'', u_username = ''alice'', u_room = ''b''\<rparr>),
               (''s2'', \<lparr>u_id = ''u2'', u_username = ''bob'', u_room = ''a''\<rparr>)],
      sio = [(''s1'', ''s1''), (''s1'', ''a''), (''s2'', ''s2''), (''s2'', ''a''),
             (''s1'', ''b'')],
      store = []\<rparr>"
  by (simp add: switched_state_def lobby_state_eq handler_defs)

lemma stranger_state_eq:
  "stranger_state =
     \<lparr>users = [(''s1'', \<lparr>u_id = ''u1'', u_username = ''alice'', u_room = ''a''\<rparr>),
               (''s2'', \<lparr>u_id = ''u2'', u_username = ''bob'', u_room = ''a''\<rparr>)],
      sio = [(''s1'', ''s1''), (''s1'', ''a''), (''s2'', ''s2''), (''s2'', ''a''),
             (''s9'', ''s9'')],
      store = []\<rparr>"
  by (simp add: stranger_state_def lobby_state_eq handler_defs)

lemma whispered_state_eq:
  "whispered_state =
     \<lparr>users = [(''s1'', \<lparr>u_id = ''u1'', u_username = ''alice'', u_room = ''a''\<rparr>),
               (''s2'', \<lparr>u_id = ''u2'', u_username = ''bob'', u_room = ''a''\<rparr>)],
      sio = [(''s1'', ''s1''), (''s1'', ''a''), (''s2'', ''s2''), (''s2'', ''a''),
             (''s3'', ''s3'')],
      store = [\<lparr>m_username = Some ''bob'', m_message = Some ''secret'',
                m_room = ''private-u1'', m_timestamp = 5\<rparr>]\<rparr>"
  by (simp add: whispered_state_def lobby_state_eq handler_defs)

lemma js_trim_hi: "js_trim ''hi'' = ''hi''"
  by (simp add: js_trim_def is_space_def)

lemma users_get_users_set: "users_get (users_set us k v) k = Some v"
  by (induction us k v rule: users_set.induct) auto

lemma users_get_users_set_other: "k' \<noteq> k \<Longrightarrow> users_get (users_set us k v) k' = users_get us k'"
  by (induction us k v rule: users_set.induct) auto

lemma keys_users_set:
  "users_get us k = Some old \<Longrightarrow> map fst (users_set us k v) = map fst us"
  by (induction us k v rule: users_set.induct) (auto split: if_splits)

lemma users_get_None_iff: "users_get us k = None \<longleftrightarrow> k \<notin> fst ` set us"
  by (induction us k rule: users_get.induct) auto

text \<open>No property named \<open>socketId\<close> is ever written into a stored user.\<close>

lemma user_prop_socketId: "user_prop u ''socketId'' = None"
  by (simp add: user_prop_def)

text \<open>A join only ever adds to the rooms of socket.io.\<close>

lemma join_keeps_rooms:
  "set (sio st) \<subseteq> set (sio (fst (join st s username room userId db_ok)))"
  by (auto simp: join_def socket_join_def Let_def split: option.splits)

text \<open>Whatever a private message sends, it sends to the socket it came from.\<close>

lemma private_message_recipients:
  "(t, e) \<in> set (fst (snd (private_message st s toUserId message username now db_ok)))
   \<Longrightarrow> t = s"
  by (auto simp: private_message_def user_prop_socketId socket_to_emit_def socket_emit_def
        Let_def split: option.splits sum.splits)

text \<open>The user list a disconnect sends is computed with the leaving user still stored.\<close>

lemma users_get_Some_mem: "users_get us k = Some v \<Longrightarrow> v \<in> set (values_of us)"
  by (induction us k rule: users_get.induct) (auto simp: values_of_def split: if_splits)

lemma disconnect_list_has_leaver:
  assumes "users_get (users st) s = Some u"
    and "(t, User_list us) \<in> set (fst (snd (disconnect st s)))"
  shows "u \<in> set us"
  using assms users_get_Some_mem [OF assms(1)]
  by (auto simp: disconnect_def Let_def socket_to_emit_def io_to_emit_def)

section \<open>Message validation\<close>

text \<open>
  C8. A chat-message event whose body is empty after trimming, or longer than 500,
  gets the error \<open>Invalid message\<close> on the sending socket and nothing else: the
  handler returns before it builds a document, so nothing is sent to any room and the
  state, the stored messages included, is what it was.
\<close>

theorem chat_message_invalid:
  "js_trim m = [] \<or> 500 < length m \<Longrightarrow>
   chat_message st s (Some m) room username now db_ok =
     (st, [(s, Error_ev ''Invalid message'')], Returned)"
  by (simp add: chat_message_def socket_emit_def)

theorem chat_message_invalid_witness:
  "(js_trim '' '' = [] \<or> 500 < length '' '')
   \<and> chat_message init ''s1'' (Some '' '') (Some ''a'') (Some ''alice'') 7 True =
       (init, [(''s1'', Error_ev ''Invalid message'')], Returned)
   \<and> (js_trim (replicate 501 CHR ''x'') = [] \<or> 500 < length (replicate 501 CHR ''x''))
   \<and> chat_message init ''s1'' (Some (replicate 501 CHR ''x'')) (Some ''a'') (Some ''alice'') 7 True =
       (init, [(''s1'', Error_ev ''Invalid message'')], Returned)"
proof -
  have a: "js_trim '' '' = [] \<or> 500 < length '' ''"
    by (simp add: js_trim_def is_space_def)
  have b: "js_trim (replicate 501 CHR ''x'') = [] \<or> 500 < length (replicate 501 CHR ''x'')"
    by simp
  show ?thesis
    using a b chat_message_invalid [OF a] chat_message_invalid [OF b] by blast
qed

text \<open>
  C10. A chat-message event without a \<open>message\<close> field: \<open>message.trim()\<close> is
  evaluated first and throws on \<open>undefined\<close>, so the handler's promise is rejected
  with a TypeError and the sending socket is told nothing.
\<close>

theorem chat_message_absent_body:
  "chat_message st s None room username now db_ok = (st, [], Rejected TypeError)"
  by (simp add: chat_message_def)

section \<open>Rooms and sessions\<close>

text \<open>
  C1. The rooms of socket.io against the rooms recorded in \<open>users\<close>, at the failing
  input: alice and bob are in room \<open>a\<close>, then alice's socket sends a second join, for
  room \<open>b\<close>. Her entry in \<open>users\<close> now says \<open>b\<close>, but the handler never takes the
  socket out of \<open>a\<close>: the socket is a member of both rooms, and a message bob then
  posts to \<open>a\<close> is still delivered to it.
\<close>

theorem join_again_stays_in_old_room:
  "map_option u_room (users_get (users switched_state) ''s1'') = Some ''b''
   \<and> members (sio switched_state) ''a'' = [''s1'', ''s2'']
   \<and> members (sio switched_state) ''b'' = [''s1'']
   \<and> fst (snd (chat_message switched_state ''s2''
                  (Some ''hi'') (Some ''a'') (Some ''bob'') 5 True))
       = [(''s1'', Chat_message_ev (Some ''bob'') ''hi'' 5),
          (''s2'', Chat_message_ev (Some ''bob'') ''hi'' 5)]"
  by (simp add: switched_state_eq handler_defs js_trim_hi)

text \<open>
  C3, as the claim states it, fails: alice's socket has a session with the user id
  \<open>u1\<close>; it joins again and \<open>uuidv4()\<close> answers \<open>u3\<close>. The session of the socket
  now carries \<open>u3\<close>.
\<close>

theorem join_again_changes_user_id:
  "map_option u_id (users_get (users lobby_state) ''s1'') = Some ''u1''
   \<and> map_option u_id (users_get (users
         (fst (join lobby_state ''s1'' (Some ''alice'') (Some ''b'') ''u3'' True))) ''s1'')
       = Some ''u3''
   \<and> map_option u_id (users_get (users
         (fst (join lobby_state ''s1'' (Some ''alice'') (Some ''b'') ''u3'' True))) ''s1'')
       \<noteq> map_option u_id (users_get (users lobby_state) ''s1'')"
  by (simp add: lobby_state_eq handler_defs)

text \<open>
  C3, amended. A join with a username and a room, on a socket that already has a
  session, overwrites the entry stored under that socket id: the keys of \<open>users\<close> and
  their order stay as they were, and the entry now holds the username and the room of
  the payload and the user id generated for this join.
\<close>

theorem join_again_overwrites_session:
  assumes "users_get (users st) s = Some old" and "un \<noteq> []" and "rm \<noteq> []"
  shows "users_get (users (fst (join st s (Some un) (Some rm) userId db_ok))) s
           = Some \<lparr>u_id = userId, u_username = un, u_room = rm\<rparr>
         \<and> map fst (users (fst (join st s (Some un) (Some rm) userId db_ok)))
           = map fst (users st)"
  using assms by (simp add: join_def Let_def users_get_users_set keys_users_set)

theorem join_again_overwrites_session_witness:
  "users_get (users lobby_state) ''s1''
     = Some \<lparr>u_id = ''u1'', u_username = ''alice'', u_room = ''a''\<rparr>
   \<and> ''alice'' \<noteq> [] \<and> ''b'' \<noteq> []
   \<and> users_get (users (fst (join lobby_state ''s1'' (Some ''alice'') (Some ''b'') ''u3'' True)))
        ''s1''
       = Some \<lparr>u_id = ''u3'', u_username = ''alice'', u_room = ''b''\<rparr>
   \<and> map fst (users (fst (join lobby_state ''s1'' (Some ''alice'') (Some ''b'') ''u3'' True)))
       = map fst (users lobby_state)"
proof -
  have h: "users_get (users lobby_state) ''s1''
             = Some \<lparr>u_id = ''u1'', u_username = ''alice'', u_room = ''a''\<rparr>"
    by (simp add: lobby_state_eq)
  have a: "''alice'' \<noteq> []" and b: "''b'' \<noteq> []"
    by simp_all
  show ?thesis
    using h join_again_overwrites_session [OF h a b, of "''u3''" True] by simp
qed

section \<open>Room messages\<close>

text \<open>
  C4, as the claim states it, fails: socket \<open>s9\<close> has connected and never joined,
  so it has no session. Its chat message, naming room \<open>a\<close> and the username
  \<open>mallory\<close>, is not refused: it is broadcast to room \<open>a\<close> under that name.
\<close>

theorem chat_message_without_session:
  "users_get (users stranger_state) ''s9'' = None
   \<and> snd (chat_message stranger_state ''s9''
             (Some ''hi'') (Some ''a'') (Some ''mallory'') 5 True)
       = ([(''s1'', Chat_message_ev (Some ''mallory'') ''hi'' 5),
           (''s2'', Chat_message_ev (Some ''mallory'') ''hi'' 5)], Returned)"
  by (simp add: stranger_state_eq handler_defs js_trim_hi)

text \<open>
  C4, amended. The chat-message handler does not look at \<open>users\<close>. For a valid body,
  a username in the payload and a database that answers, it stores a document tagged
  with the room and the username of the payload and sends the message, under the
  payload's username, to the members of the payload's room, whichever socket sent it.
\<close>

theorem chat_message_trusts_payload:
  assumes "js_trim m \<noteq> []" and "length m \<le> 500" and "truthy username"
  shows "chat_message st s (Some m) (Some r) username now True =
           (st\<lparr>store := store st @ [\<lparr>m_username = username, m_message = Some m,
                                      m_room = r, m_timestamp = now\<rparr>]\<rparr>,
            map (\<lambda>t. (t, Chat_message_ev username m now)) (members (sio st) r),
            Returned)"
proof -
  have "m \<noteq> []"
    using assms(1) by (auto simp: js_trim_def)
  then show ?thesis
    using assms
    by (simp add: chat_message_def save_def new_Message_def io_to_emit_def truthy_def Let_def)
qed

theorem chat_message_trusts_payload_witness:
  "js_trim ''hi'' \<noteq> [] \<and> length ''hi'' \<le> 500 \<and> truthy (Some ''mallory'')
   \<and> users_get (users lobby_state) ''s9'' = None
   \<and> chat_message lobby_state ''s9'' (Some ''hi'') (Some ''b'') (Some ''mallory'') 5 True =
       (lobby_state\<lparr>store := store lobby_state @
                       [\<lparr>m_username = Some ''mallory'', m_message = Some ''hi'',
                         m_room = ''b'', m_timestamp = 5\<rparr>]\<rparr>,
        map (\<lambda>t. (t, Chat_message_ev (Some ''mallory'') ''hi'' 5)) (members (sio lobby_state) ''b''),
        Returned)"
proof -
  have a: "js_trim ''hi'' \<noteq> []"
    by (simp add: js_trim_hi)
  have b: "length ''hi'' \<le> 500"
    by simp
  have c: "truthy (Some ''mallory'')"
    by (simp add: truthy_def)
  have d: "users_get (users lobby_state) ''s9'' = None"
    by (simp add: lobby_state_eq)
  show ?thesis
    using a b c d chat_message_trusts_payload [OF a b c, of lobby_state "''s9''" "''b''" 5]
    by simp
qed

text \<open>
  C5, as the claim states it, fails: alice posts a valid message to room \<open>a\<close>, where
  she and bob are, and the database does not answer. No chat message event is sent to
  anyone.
\<close>

theorem store_failure_suppresses_broadcast:
  "members (sio lobby_state) ''a'' = [''s1'', ''s2'']
   \<and> fst (snd (chat_message lobby_state ''s1''
                  (Some ''hi'') (Some ''a'') (Some ''alice'') 5 False))
       = []"
  by (simp add: lobby_state_eq handler_defs js_trim_hi)

text \<open>
  C5, amended. The handler saves first and broadcasts afterwards, so the broadcast
  depends on the save: for a valid body and a username, the chat message event goes to
  every member of the room the payload names when the database has stored the message,
  and to nobody when the database has failed.
\<close>

theorem chat_message_broadcast_follows_save:
  assumes "js_trim m \<noteq> []" and "length m \<le> 500" and "truthy username"
  shows "fst (snd (chat_message st s (Some m) (Some r) username now db_ok)) =
           (if db_ok
            then map (\<lambda>t. (t, Chat_message_ev username m now)) (members (sio st) r)
            else [])"
proof -
  have "m \<noteq> []"
    using assms(1) by (auto simp: js_trim_def)
  then show ?thesis
    using assms
    by (simp add: chat_message_def save_def new_Message_def io_to_emit_def truthy_def Let_def)
qed

theorem chat_message_broadcast_follows_save_witness:
  "js_trim ''hi'' \<noteq> [] \<and> length ''hi'' \<le> 500 \<and> truthy (Some ''alice'')
   \<and> fst (snd (chat_message lobby_state ''s1''
                  (Some ''hi'') (Some ''a'') (Some ''alice'') 5 True))
       = [(''s1'', Chat_message_ev (Some ''alice'') ''hi'' 5),
          (''s2'', Chat_message_ev (Some ''alice'') ''hi'' 5)]
   \<and> fst (snd (chat_message lobby_state ''s1''
                  (Some ''hi'') (Some ''a'') (Some ''alice'') 5 False))
       = []"
proof -
  have a: "js_trim ''hi'' \<noteq> []"
    by (simp add: js_trim_hi)
  have b: "length ''hi'' \<le> 500"
    by simp
  have c: "truthy (Some ''alice'')"
    by (simp add: truthy_def)
  have d: "members (sio lobby_state) ''a'' = [''s1'', ''s2'']"
    by (simp add: lobby_state_eq members_def)
  show ?thesis
    using a b c d
      chat_message_broadcast_follows_save [OF a b c, of lobby_state "''s1''" "''a''" 5 True]
      chat_message_broadcast_follows_save [OF a b c, of lobby_state "''s1''" "''a''" 5 False]
    by simp
qed

section \<open>Typing\<close>

text \<open>
  C7, as the claim states it, fails: alice's socket signals typing twice in room
  \<open>a\<close>, with nothing in between. Bob's socket gets the typing event twice.
\<close>

theorem typing_twice_emits_twice:
  "snd (run lobby_state
          [Typing ''s1'' (Some ''alice'') (Some ''a''),
           Typing ''s1'' (Some ''alice'') (Some ''a'')])
     = [(''s2'', Typing_ev (Some ''alice'')), (''s2'', Typing_ev (Some ''alice''))]"
  by (simp add: lobby_state_eq handler_defs)

text \<open>
  C7, amended. The server keeps no typing state and no timer: every typing signal is
  relayed, as one typing event to each other member of the room the payload names, and
  leaves the state as it was. Two signals in a row are relayed twice.
\<close>

theorem typing_relays_every_signal:
  "run st [Typing s username (Some r), Typing s username (Some r)] =
     (st, map (\<lambda>t. (t, Typing_ev username)) (filter (\<lambda>t. t \<noteq> s) (members (sio st) r))
          @ map (\<lambda>t. (t, Typing_ev username)) (filter (\<lambda>t. t \<noteq> s) (members (sio st) r)))"
  by (simp add: typing_def socket_to_emit_def)

section \<open>Private messages\<close>

text \<open>
  C2, at the failing input: bob sends a private message to alice's user id \<open>u1\<close>,
  and alice is connected. The recipient is found in \<open>users\<close>, the message is stored,
  bob's socket gets its confirmation, and alice's socket gets nothing: the room the
  handler sends to is the \<open>socketId\<close> property of the stored user, which no stored user
  has.
\<close>

theorem private_message_not_delivered:
  "members (sio lobby_state) ''s1'' = [''s1'']
   \<and> fst (snd (private_message lobby_state ''s2''
                  (Some ''u1'') (Some ''secret'') (Some ''bob'') 5 True))
       = [(''s2'', Private_message_to ''alice'' (Some ''secret'') 5)]"
  by (simp add: lobby_state_eq handler_defs)

text \<open>
  C9, at the failing input: bob's private message to alice is stored under the room
  tag \<open>private-u1\<close>. A third client then joins the room of that name, and the chat
  history it is sent contains the private message.
\<close>

theorem history_contains_private_message:
  "fst (snd (join whispered_state ''s3'' (Some ''eve'') (Some ''private-u1'') ''u3'' True))
   = [(''s3'', Chat_history [\<lparr>m_username = Some ''bob'', m_message = Some ''secret'',
                               m_room = ''private-u1'', m_timestamp = 5\<rparr>]),
      (''s3'', User_list [\<lparr>u_id = ''u3'', u_username = ''eve'', u_room = ''private-u1''\<rparr>])]"
  by (simp add: whispered_state_eq handler_defs sort_key_def)

section \<open>Disconnect\<close>

text \<open>
  C6, at the failing input: alice's socket disconnects while bob is in the same room.
  The handler sends the user list before it deletes alice from \<open>users\<close>, so the list
  bob's socket receives still names alice.
\<close>

theorem disconnect_user_list_names_leaver:
  "fst (snd (disconnect lobby_state ''s1''))
     = [(''s2'', User_left ''alice has left the room''),
        (''s2'', User_list [\<lparr>u_id = ''u1'', u_username = ''alice'', u_room = ''a''\<rparr>,
                            \<lparr>u_id = ''u2'', u_username = ''bob'', u_room = ''a''\<rparr>])]"
  by (simp add: lobby_state_eq handler_defs)

end
